theory Spec2Isabelle
  imports Complex_Main
begin

section \<open>The training engine of asm2vec (asm2vec/internal/training.py)\<close>

text \<open>
  The engine is Python over numpy arrays. The embedding keeps the structure of the
  source: one definition per source function. A Python exception is the left summand of
  a result; a function that mutates objects takes the state and returns its result
  together with the state, also when it raises, since what was mutated before an
  exception stays mutated. A float is a float64 value: a finite number, an infinity or
  nan.
\<close>

subsection \<open>Exceptions\<close>

datatype error =
  StopIteration | KeyError | IndexError | TypeError | AttributeError | ValueError
  | ZeroDivisionError | OverflowError

definition ebind :: "error + 'a \<Rightarrow> ('a \<Rightarrow> error + 'b) \<Rightarrow> error + 'b" where
  "ebind m k = (case m of Inl e \<Rightarrow> Inl e | Inr x \<Rightarrow> k x)"

fun emap :: "('a \<Rightarrow> error + 'b) \<Rightarrow> 'a list \<Rightarrow> error + 'b list" where
  "emap g [] = Inr []"
| "emap g (x # xs) = ebind (g x) (\<lambda>y. ebind (emap g xs) (\<lambda>ys. Inr (y # ys)))"

text \<open>
  Sequencing with a state: \<open>r\<close> is the result and the state of what ran first; after an
  exception nothing more runs and the state stays as the exception left it.
\<close>

definition sbind :: "(error + 'a) \<times> 's \<Rightarrow> ('a \<Rightarrow> 's \<Rightarrow> (error + 'b) \<times> 's) \<Rightarrow> (error + 'b) \<times> 's" where
  "sbind r k = (case fst r of Inl e \<Rightarrow> (Inl e, snd r) | Inr x \<Rightarrow> k x (snd r))"

subsection \<open>float64 values\<close>

text \<open>
  What this model keeps of float64 arithmetic is its special values and the range of
  \<open>np.exp\<close>: above \<open>exp_overflow\<close> (the logarithm of the largest float64) the result is
  \<open>inf\<close>, below \<open>exp_underflow\<close> it is \<open>0\<close>; numpy warns in both cases and raises
  nothing. Rounding is not modelled, nor the overflow of a sum, a product or a quotient
  of finite numbers (inside the sigmoid none can overflow), nor the sign of a zero.
\<close>

datatype float64 = Finite real | PosInf | NegInf | NaN

definition exp_overflow :: real where
  "exp_overflow = 709.782712893384"

definition exp_underflow :: real where
  "exp_underflow = - 745.1332191019412"

fun np_exp :: "float64 \<Rightarrow> float64" where
  "np_exp (Finite x) =
     (if exp_overflow < x then PosInf
      else if x < exp_underflow then Finite 0
      else Finite (exp x))"
| "np_exp PosInf = PosInf"
| "np_exp NegInf = Finite 0"
| "np_exp NaN = NaN"

fun f64_add :: "float64 \<Rightarrow> float64 \<Rightarrow> float64" where
  "f64_add (Finite a) (Finite b) = Finite (a + b)"
| "f64_add NaN y = NaN"
| "f64_add x NaN = NaN"
| "f64_add PosInf NegInf = NaN"
| "f64_add NegInf PosInf = NaN"
| "f64_add PosInf y = PosInf"
| "f64_add x PosInf = PosInf"
| "f64_add NegInf y = NegInf"
| "f64_add x NegInf = NegInf"

fun f64_sub :: "float64 \<Rightarrow> float64 \<Rightarrow> float64" where
  "f64_sub (Finite a) (Finite b) = Finite (a - b)"
| "f64_sub NaN y = NaN"
| "f64_sub x NaN = NaN"
| "f64_sub PosInf PosInf = NaN"
| "f64_sub NegInf NegInf = NaN"
| "f64_sub PosInf y = PosInf"
| "f64_sub x PosInf = NegInf"
| "f64_sub NegInf y = NegInf"
| "f64_sub x NegInf = PosInf"

fun f64_mul :: "float64 \<Rightarrow> float64 \<Rightarrow> float64" where
  "f64_mul (Finite a) (Finite b) = Finite (a * b)"
| "f64_mul NaN y = NaN"
| "f64_mul x NaN = NaN"
| "f64_mul (Finite a) PosInf = (if a = 0 then NaN else if 0 < a then PosInf else NegInf)"
| "f64_mul (Finite a) NegInf = (if a = 0 then NaN else if 0 < a then NegInf else PosInf)"
| "f64_mul PosInf (Finite b) = (if b = 0 then NaN else if 0 < b then PosInf else NegInf)"
| "f64_mul NegInf (Finite b) = (if b = 0 then NaN else if 0 < b then NegInf else PosInf)"
| "f64_mul PosInf PosInf = PosInf"
| "f64_mul NegInf NegInf = PosInf"
| "f64_mul PosInf NegInf = NegInf"
| "f64_mul NegInf PosInf = NegInf"

fun f64_div :: "float64 \<Rightarrow> float64 \<Rightarrow> float64" where
  "f64_div (Finite a) (Finite b) =
     (if b = 0 then (if a = 0 then NaN else if 0 < a then PosInf else NegInf)
      else Finite (a / b))"
| "f64_div NaN y = NaN"
| "f64_div x NaN = NaN"
| "f64_div (Finite a) y = Finite 0"
| "f64_div PosInf (Finite b) = (if b < 0 then NegInf else PosInf)"
| "f64_div NegInf (Finite b) = (if b < 0 then PosInf else NegInf)"
| "f64_div x y = NaN"

text \<open>\<open>b > a\<close> on floats is false when either is nan; Python's \<open>max(a, b)\<close> is \<open>b\<close>
  when \<open>b > a\<close> and \<open>a\<close> otherwise.\<close>

fun f64_gt :: "float64 \<Rightarrow> float64 \<Rightarrow> bool" where
  "f64_gt (Finite a) (Finite b) = (b < a)"
| "f64_gt NaN y = False"
| "f64_gt x NaN = False"
| "f64_gt PosInf PosInf = False"
| "f64_gt PosInf y = True"
| "f64_gt x PosInf = False"
| "f64_gt NegInf y = False"
| "f64_gt x NegInf = True"

definition py_max :: "float64 \<Rightarrow> float64 \<Rightarrow> float64" where
  "py_max a b = (if f64_gt b a then b else a)"

text \<open>
  Python's \<open>a / b\<close> on integers: the quotient as a float. A zero divisor raises
  ZeroDivisionError, a quotient too large for a float64 (one that rounds beyond the
  largest float64) raises OverflowError.
\<close>

definition py_true_div :: "int \<Rightarrow> int \<Rightarrow> error + float64" where
  "py_true_div a b =
     (if b = 0 then Inl ZeroDivisionError
      else if 2 ^ 1024 - 2 ^ 970 \<le> \<bar>real_of_int a / real_of_int b\<bar> then Inl OverflowError
      else Inr (Finite (real_of_int a / real_of_int b)))"

text \<open>The logistic function over the reals, which the sigmoid of the source approximates.\<close>

definition logistic :: "real \<Rightarrow> real" where
  "logistic x = exp x / (1 + exp x)"

subsection \<open>Data model\<close>

type_synonym vec = "float64 list"

definition fvec :: "real list \<Rightarrow> vec" where
  "fvec xs = map Finite xs"

text \<open>
  Modelled from the spec: the classes VectorizedToken and Instruction live in modules
  that are not part of the source under study. A token carries an embedding vector \<open>v\<close>
  and a predictive vector \<open>v_pred\<close>, and is identified by its name; an instruction has an
  opcode name and a list of operand names. The vocabulary maps a token name to its token.
  A reference to a token object is the name under which the vocabulary holds it, so that
  a mutation of the token is seen by every holder of the reference.
\<close>

record vectorized_token =
  tok_v :: vec
  tok_v_pred :: vec

record instruction =
  ins_op :: string
  ins_args :: "string list"

type_synonym vocabulary = "string \<rightharpoonup> vectorized_token"

subsection \<open>SequenceWindow\<close>

record sequence_window =
  wnd_seq :: "instruction list"
  wnd_i :: int

text \<open>The six fields that \<open>__next__\<close> stores and returns: token references.\<close>

record view =
  prev_ins_op :: string
  prev_ins_args :: "string list"
  curr_ins_op :: string
  curr_ins_args :: "string list"
  next_ins_op :: string
  next_ins_args :: "string list"

definition SequenceWindow :: "instruction list \<Rightarrow> sequence_window" where
  "SequenceWindow s = \<lparr>wnd_seq = s, wnd_i = 1\<rparr>"

text \<open>Python's \<open>xs[k]\<close>: a negative index counts from the end, out of range raises.\<close>

definition py_getitem :: "'a list \<Rightarrow> int \<Rightarrow> error + 'a" where
  "py_getitem xs k =
     (if k < - int (length xs) \<or> int (length xs) \<le> k then Inl IndexError
      else Inr (xs ! nat (if k < 0 then k + int (length xs) else k)))"

text \<open>\<open>self._vocab[name].vectorized()\<close>: KeyError for a name the vocabulary lacks.\<close>

definition token_lookup :: "vocabulary \<Rightarrow> string \<Rightarrow> error + string" where
  "token_lookup vocab name = (case vocab name of None \<Rightarrow> Inl KeyError | Some t \<Rightarrow> Inr name)"

definition window_next :: "vocabulary \<Rightarrow> sequence_window \<Rightarrow> error + (view \<times> sequence_window)" where
  "window_next vocab w =
     (if wnd_i w \<ge> int (length (wnd_seq w)) - 1 then Inl StopIteration
      else
        ebind (py_getitem (wnd_seq w) (wnd_i w - 1)) (\<lambda>prev_ins.
        ebind (py_getitem (wnd_seq w) (wnd_i w)) (\<lambda>curr_ins.
        ebind (py_getitem (wnd_seq w) (wnd_i w + 1)) (\<lambda>next_ins.
        ebind (token_lookup vocab (ins_op prev_ins)) (\<lambda>po.
        ebind (emap (token_lookup vocab) (ins_args prev_ins)) (\<lambda>pa.
        ebind (token_lookup vocab (ins_op curr_ins)) (\<lambda>co.
        ebind (emap (token_lookup vocab) (ins_args curr_ins)) (\<lambda>ca.
        ebind (token_lookup vocab (ins_op next_ins)) (\<lambda>no.
        ebind (emap (token_lookup vocab) (ins_args next_ins)) (\<lambda>na.
          Inr (\<lparr>prev_ins_op = po, prev_ins_args = pa,
                curr_ins_op = co, curr_ins_args = ca,
                next_ins_op = no, next_ins_args = na\<rparr>,
               w\<lparr>wnd_i := wnd_i w + 1\<rparr>)))))))))))"

lemma window_next_Inr:
  assumes "window_next vocab w = Inr (vw, w')"
  shows "wnd_i w < int (length (wnd_seq w)) - 1 \<and> wnd_i w' = wnd_i w + 1
         \<and> wnd_seq w' = wnd_seq w"
  using assms
  by (auto simp: window_next_def ebind_def split: if_splits sum.splits)

text \<open>
  Iterating a window to its end, as \<open>for x in wnd\<close> or \<open>list(wnd)\<close> does: the tuples
  produced until \<open>__next__\<close> raises StopIteration; any other exception propagates.
\<close>

function drain :: "vocabulary \<Rightarrow> sequence_window \<Rightarrow> error + view list" where
  "drain vocab w =
     (case window_next vocab w of
        Inl e \<Rightarrow> (if e = StopIteration then Inr [] else Inl e)
      | Inr (vw, w') \<Rightarrow> ebind (drain vocab w') (\<lambda>vs. Inr (vw # vs)))"
  by pat_completeness auto
termination
proof (relation "measure (\<lambda>(vocab, w). nat (int (length (wnd_seq w)) - wnd_i w))")
  show "wf (measure (\<lambda>(vocab, w). nat (int (length (wnd_seq w)) - wnd_i w)))"
    by simp
next
  fix vocab :: vocabulary and w x2 vw w'
  assume "window_next vocab w = Inr x2" and "(vw, w') = x2"
  then have "window_next vocab w = Inr (vw, w')"
    by simp
  from window_next_Inr [OF this]
  show "((vocab, w'), (vocab, w))
        \<in> measure (\<lambda>(vocab, w). nat (int (length (wnd_seq w)) - wnd_i w))"
    by simp
qed

declare drain.simps [simp del]

text \<open>The view at cursor position \<open>k\<close>: the instructions at \<open>k - 1\<close>, \<open>k\<close> and \<open>k + 1\<close>.\<close>

definition view_at :: "instruction list \<Rightarrow> nat \<Rightarrow> view" where
  "view_at s k =
     \<lparr>prev_ins_op = ins_op (s ! (k - 1)), prev_ins_args = ins_args (s ! (k - 1)),
      curr_ins_op = ins_op (s ! k), curr_ins_args = ins_args (s ! k),
      next_ins_op = ins_op (s ! (k + 1)), next_ins_args = ins_args (s ! (k + 1))\<rparr>"

text \<open>The invariant of the data model: every name of the sequence is in the vocabulary.\<close>

definition names_of :: "instruction \<Rightarrow> string set" where
  "names_of ins = insert (ins_op ins) (set (ins_args ins))"

definition vocab_covers :: "vocabulary \<Rightarrow> instruction list \<Rightarrow> bool" where
  "vocab_covers vocab s = (\<forall>ins \<in> set s. names_of ins \<subseteq> dom vocab)"

subsection \<open>numpy on one-dimensional arrays\<close>

text \<open>
  \<open>np.sum\<close> of a list of numbers; \<open>np.dot\<close> of two one-dimensional arrays, their inner
  product, which needs equal lengths. An in-place \<open>a -= b\<close> or \<open>a += b\<close> keeps the shape
  of \<open>a\<close>: \<open>b\<close> has the length of \<open>a\<close>, or one entry that is broadcast; anything else
  raises ValueError and leaves \<open>a\<close> as it was. The order in which numpy adds up the
  terms of a sum is not modelled.
\<close>

definition np_sum :: "float64 list \<Rightarrow> float64" where
  "np_sum xs = fold (\<lambda>x acc. f64_add acc x) xs (Finite 0)"

definition np_dot :: "vec \<Rightarrow> vec \<Rightarrow> error + float64" where
  "np_dot a b =
     (if length a = length b then Inr (np_sum (map2 f64_mul a b))
      else Inl ValueError)"

definition np_isub :: "vec \<Rightarrow> vec \<Rightarrow> error + vec" where
  "np_isub a b =
     (if length b = length a then Inr (map2 f64_sub a b)
      else if length b = 1 then Inr (map (\<lambda>x. f64_sub x (hd b)) a)
      else Inl ValueError)"

definition np_iadd :: "vec \<Rightarrow> vec \<Rightarrow> error + vec" where
  "np_iadd a b =
     (if length b = length a then Inr (map2 f64_add a b)
      else if length b = 1 then Inr (map (\<lambda>x. f64_add x (hd b)) a)
      else Inl ValueError)"

text \<open>A number times an array.\<close>

definition np_scale :: "float64 \<Rightarrow> vec \<Rightarrow> vec" where
  "np_scale c a = map (f64_mul c) a"

text \<open>
  \<open>np.average(rows, axis=0)\<close>: the elementwise mean of a list of arrays. Rows of
  different lengths raise; of an empty list numpy returns nan with a warning and no
  exception (a number, held here as a one-entry array).
\<close>

definition np_average_axis0 :: "vec list \<Rightarrow> error + vec" where
  "np_average_axis0 rows =
     (case rows of
        [] \<Rightarrow> Inr [NaN]
      | r # rs \<Rightarrow>
          if list_all (\<lambda>x. length x = length r) rs
          then Inr (map (\<lambda>j. f64_div (np_sum (map (\<lambda>x. x ! j) rows))
                                       (Finite (real (length rows))))
                        [0 ..< length r])
          else Inl ValueError)"

text \<open>
  What a call passes to numpy: an array, a tuple of arrays, or an object that is not
  an array. \<open>np.hstack\<close> has one positional parameter, the sequence of arrays to join;
  a call with any other number of positional arguments raises TypeError before numpy
  looks at them. \<open>np.average(t)\<close> without an axis is the mean of all the entries, one
  number (held here as a one-entry array); an element that is not an array of numbers
  makes numpy raise.
\<close>

datatype pyarg = is_Arr: Arr (the_Arr: vec) | Tup "vec list" | Obj

fun np_hstack :: "pyarg list \<Rightarrow> error + vec" where
  "np_hstack [Tup xs] = Inr (concat xs)"
| "np_hstack [Arr x] = Inr x"
| "np_hstack others = Inl TypeError"

definition np_average_all :: "pyarg list \<Rightarrow> error + vec" where
  "np_average_all t =
     (if list_all is_Arr t
      then Inr [f64_div (np_sum (concat (map the_Arr t)))
                        (Finite (real (length (concat (map the_Arr t)))))]
      else Inl TypeError)"

subsection \<open>Asm2VecParams, the repository and TrainingContext\<close>

record asm2vec_params =
  par_d :: int
  par_initial_alpha :: float64
  par_alpha_update_interval :: int
  par_num_of_rnd_walks :: int
  par_neg_samples :: int
  par_iteration :: int

text \<open>\<open>Asm2VecParams()\<close> with no keyword given.\<close>

definition Asm2VecParams :: asm2vec_params where
  "Asm2VecParams =
     \<lparr>par_d = 200, par_initial_alpha = Finite 0.05, par_alpha_update_interval = 10000,
      par_num_of_rnd_walks = 3, par_neg_samples = 25, par_iteration = 1\<rparr>"

text \<open>
  Modelled from the spec: VectorizedFunction, FunctionRepository and NegativeSampler are
  classes of modules outside the source under study. A function has its vector and its
  instruction sequences; the repository has the vocabulary, the functions and the
  number of tokens of the corpus. The sampler draws tokens of the vocabulary at random:
  the outcome of its \<open>n\<close>-th call \<open>sample(k)\<close> is a parameter \<open>draws n k\<close>, a list of
  token names.
\<close>

record vectorized_function =
  fn_v :: vec
  fn_sequences :: "instruction list list"

record function_repository =
  repo_vocab :: vocabulary
  repo_funcs :: "vectorized_function list"
  repo_num_of_tokens :: int

text \<open>
  The context holds the token objects of the repository (the store that the gradient
  step mutates), the parameters, the learning rate, the sampler, the estimation flag
  and the counters.
\<close>

record training_context =
  ctx_vocab :: vocabulary
  ctx_num_of_tokens :: int
  ctx_params :: asm2vec_params
  ctx_alpha :: float64
  ctx_draws :: "nat \<Rightarrow> int \<Rightarrow> string list"
  ctx_ndraws :: nat
  ctx_is_estimating :: bool
  ctx_counters :: "string \<rightharpoonup> int"

definition TrainingContext ::
  "(nat \<Rightarrow> int \<Rightarrow> string list) \<Rightarrow> function_repository \<Rightarrow> asm2vec_params \<Rightarrow> bool
   \<Rightarrow> training_context" where
  "TrainingContext draws repo params estimating =
     \<lparr>ctx_vocab = repo_vocab repo, ctx_num_of_tokens = repo_num_of_tokens repo,
      ctx_params = params, ctx_alpha = par_initial_alpha params,
      ctx_draws = draws, ctx_ndraws = 0,
      ctx_is_estimating = estimating, ctx_counters = Map.empty\<rparr>"

definition TOKENS_HANDLED_COUNTER :: string where
  "TOKENS_HANDLED_COUNTER = ''tokens_handled''"


definition Counter_reset :: "int \<Rightarrow> int \<times> int" where
  "Counter_reset c = (0, c)"

text \<open>\<open>self._counters.get(name)\<close>: the counter, or None.\<close>

definition get_counter :: "training_context \<Rightarrow> string \<Rightarrow> int option" where
  "get_counter ctx name = ctx_counters ctx name"

definition add_counter :: "training_context \<Rightarrow> string \<Rightarrow> int \<Rightarrow> training_context" where
  "add_counter ctx name initial = ctx\<lparr>ctx_counters := (ctx_counters ctx)(name \<mapsto> initial)\<rparr>"

definition set_alpha :: "training_context \<Rightarrow> float64 \<Rightarrow> training_context" where
  "set_alpha ctx a = ctx\<lparr>ctx_alpha := a\<rparr>"

definition sample :: "training_context \<Rightarrow> int \<Rightarrow> string list \<times> training_context" where
  "sample ctx k = (ctx_draws ctx (ctx_ndraws ctx) k, ctx\<lparr>ctx_ndraws := Suc (ctx_ndraws ctx)\<rparr>)"

definition create_sequence_window :: "training_context \<Rightarrow> instruction list \<Rightarrow> sequence_window" where
  "create_sequence_window ctx s = SequenceWindow s"

text \<open>Reading and updating in place the vectors of the token behind a reference.\<close>

definition get_v :: "vocabulary \<Rightarrow> string \<Rightarrow> error + vec" where
  "get_v vocab t = (case vocab t of None \<Rightarrow> Inl KeyError | Some tok \<Rightarrow> Inr (tok_v tok))"

definition get_v_pred :: "vocabulary \<Rightarrow> string \<Rightarrow> error + vec" where
  "get_v_pred vocab t = (case vocab t of None \<Rightarrow> Inl KeyError | Some tok \<Rightarrow> Inr (tok_v_pred tok))"

definition isub_v :: "string \<Rightarrow> vec \<Rightarrow> training_context \<Rightarrow> (error + unit) \<times> training_context" where
  "isub_v t g ctx =
     (case ctx_vocab ctx t of
        None \<Rightarrow> (Inl KeyError, ctx)
      | Some tok \<Rightarrow>
          (case np_isub (tok_v tok) g of
             Inl e \<Rightarrow> (Inl e, ctx)
           | Inr x \<Rightarrow> (Inr (), ctx\<lparr>ctx_vocab := (ctx_vocab ctx)(t \<mapsto> tok\<lparr>tok_v := x\<rparr>)\<rparr>)))"

definition isub_v_pred :: "string \<Rightarrow> vec \<Rightarrow> training_context \<Rightarrow> (error + unit) \<times> training_context" where
  "isub_v_pred t g ctx =
     (case ctx_vocab ctx t of
        None \<Rightarrow> (Inl KeyError, ctx)
      | Some tok \<Rightarrow>
          (case np_isub (tok_v_pred tok) g of
             Inl e \<Rightarrow> (Inl e, ctx)
           | Inr x \<Rightarrow> (Inr (), ctx\<lparr>ctx_vocab := (ctx_vocab ctx)(t \<mapsto> tok\<lparr>tok_v_pred := x\<rparr>)\<rparr>)))"

subsection \<open>The gradient step\<close>

text \<open>\<open>_sigmoid\<close> as written: \<open>e = np.exp(x)\<close> and \<open>e / (1 + e)\<close>.\<close>

definition sigmoid :: "float64 \<Rightarrow> float64" where
  "sigmoid x = f64_div (np_exp x) (f64_add (Finite 1) (np_exp x))"

definition identity :: "bool \<Rightarrow> float64" where
  "identity cond = (if cond then Finite 1 else Finite 0)"

definition dot_sigmoid :: "vec \<Rightarrow> vec \<Rightarrow> error + float64" where
  "dot_sigmoid lhs rhs = ebind (np_dot lhs rhs) (\<lambda>x. Inr (sigmoid x))"

text \<open>
  \<open>_get_inst_repr\<close> evaluates \<open>op.v\<close> and the average of the operands' vectors, and
  passes them to \<open>np.hstack\<close> as two positional arguments.
\<close>

definition get_inst_repr :: "vocabulary \<Rightarrow> string \<Rightarrow> string list \<Rightarrow> error + vec" where
  "get_inst_repr vocab opr args =
     ebind (get_v vocab opr) (\<lambda>ov.
     ebind (emap (get_v vocab) args) (\<lambda>avs.
     ebind (np_average_axis0 avs) (\<lambda>m.
       np_hstack [Arr ov, Arr m])))"

text \<open>
  \<open>_get_function_grad\<close>: \<open>samples\<close> are the values of the target dictionary, in its
  order; \<open>t == current_token\<close> compares tokens, which are identified by their names.
\<close>

definition get_function_grad :: "vocabulary \<Rightarrow> string list \<Rightarrow> string \<Rightarrow> vec \<Rightarrow> error + vec" where
  "get_function_grad vocab samples current_token delta =
     ebind (emap (\<lambda>t. ebind (get_v_pred vocab current_token) (\<lambda>cp.
                       ebind (dot_sigmoid cp delta) (\<lambda>sg.
                         Inr (f64_sub (identity (t = current_token)) sg))))
                 samples) (\<lambda>terms.
     ebind (get_v_pred vocab current_token) (\<lambda>cp.
       Inr (np_scale (f64_div (np_sum terms) (Finite 3)) cp)))"

definition get_target_grad :: "vocabulary \<Rightarrow> string \<Rightarrow> string \<Rightarrow> vec \<Rightarrow> error + vec" where
  "get_target_grad vocab target current_token delta =
     ebind (get_v_pred vocab target) (\<lambda>tp.
     ebind (dot_sigmoid tp delta) (\<lambda>sg.
       Inr (map (\<lambda>x. f64_sub (identity (target = current_token)) (f64_mul sg x)) delta)))"

text \<open>
  The keys of a Python dictionary in insertion order: a new key goes to the end, a key
  that is present stays where it is.
\<close>

definition dict_add_key :: "string \<Rightarrow> string list \<Rightarrow> string list" where
  "dict_add_key k ks = (if k \<in> set ks then ks else ks @ [k])"

definition make_targets :: "string list \<Rightarrow> string \<Rightarrow> string list" where
  "make_targets drawn tk = dict_add_key tk (fold dict_add_key drawn [])"

text \<open>Lines 194 to 199: the lookup of the counter and the update of the learning rate.\<close>

definition update_alpha :: "training_context \<Rightarrow> (error + unit) \<times> training_context" where
  "update_alpha ctx =
     (case get_counter ctx TOKENS_HANDLED_COUNTER of
        None \<Rightarrow> (Inl AttributeError, ctx)
      | Some c \<Rightarrow>
          if par_alpha_update_interval (ctx_params ctx) = 0 then (Inl ZeroDivisionError, ctx)
          else if c mod par_alpha_update_interval (ctx_params ctx) = 0 then
            (case py_true_div c (par_iteration (ctx_params ctx) * ctx_num_of_tokens ctx + 1) of
               Inl e \<Rightarrow> (Inl e, ctx)
             | Inr q \<Rightarrow>
                 (Inr (), set_alpha ctx
                    (py_max (f64_sub (Finite 1) q)
                            (f64_mul (par_initial_alpha (ctx_params ctx)) (Finite 0.0001)))))
          else (Inr (), ctx))"

text \<open>Lines 206 and 207: the loop over the targets.\<close>

fun update_targets ::
  "vec \<Rightarrow> string \<Rightarrow> string list \<Rightarrow> training_context \<Rightarrow> (error + unit) \<times> training_context" where
  "update_targets delta tk [] ctx = (Inr (), ctx)"
| "update_targets delta tk (t # ts) ctx =
     sbind (get_target_grad (ctx_vocab ctx) t tk delta, ctx) (\<lambda>g ctx1.
     sbind (isub_v_pred t (np_scale (ctx_alpha ctx1) g) ctx1) (\<lambda>u ctx2.
       update_targets delta tk ts ctx2))"

text \<open>
  Lines 189 to 207: the body of the loop over the tokens of the current instruction;
  its result is the new value of the local \<open>f_grad\<close>.
\<close>

definition handle_token ::
  "vec \<Rightarrow> string \<Rightarrow> vec \<Rightarrow> training_context \<Rightarrow> (error + vec) \<times> training_context" where
  "handle_token delta tk f_grad ctx =
     (case sample ctx (par_neg_samples (ctx_params ctx)) of (drawn, ctx1) \<Rightarrow>
        sbind (update_alpha ctx1) (\<lambda>u ctx2.
        sbind (get_function_grad (ctx_vocab ctx2) (make_targets drawn tk) tk delta, ctx2) (\<lambda>g ctx3.
        sbind (np_iadd f_grad g, ctx3) (\<lambda>f_grad' ctx4.
          if \<not> ctx_is_estimating ctx4
          then sbind (update_targets delta tk (make_targets drawn tk) ctx4) (\<lambda>u ctx5.
                 (Inr f_grad', ctx5))
          else (Inr f_grad', ctx4)))))"

fun token_loop ::
  "vec \<Rightarrow> string list \<Rightarrow> vec \<Rightarrow> training_context \<Rightarrow> (error + vec) \<times> training_context" where
  "token_loop delta [] f_grad ctx = (Inr f_grad, ctx)"
| "token_loop delta (tk # tks) f_grad ctx =
     sbind (handle_token delta tk f_grad ctx) (\<lambda>g ctx'. token_loop delta tks g ctx')"

text \<open>Lines 219 and 224: \<open>for t in args: t.v -= g\<close>.\<close>

fun isub_v_all :: "string list \<Rightarrow> vec \<Rightarrow> training_context \<Rightarrow> (error + unit) \<times> training_context" where
  "isub_v_all [] g ctx = (Inr (), ctx)"
| "isub_v_all (t # ts) g ctx = sbind (isub_v t g ctx) (\<lambda>u ctx'. isub_v_all ts g ctx')"

text \<open>Lines 212 to 224: the gradient goes to the previous and the next instruction.\<close>

definition apply_instruction_gradient ::
  "view \<Rightarrow> vec \<Rightarrow> training_context \<Rightarrow> (error + unit) \<times> training_context" where
  "apply_instruction_gradient wnd f_grad ctx =
     sbind (get_v (ctx_vocab ctx) (prev_ins_op wnd), ctx) (\<lambda>pv ctx0.
     sbind (isub_v (prev_ins_op wnd)
              (np_scale (ctx_alpha ctx0) (take (length pv) f_grad)) ctx0) (\<lambda>u ctx1.
     sbind (isub_v_all (prev_ins_args wnd)
              (map (\<lambda>x. f64_mul (f64_div x (Finite (real (length (prev_ins_args wnd)))))
                                 (ctx_alpha ctx1))
                   (drop (length pv) f_grad)) ctx1) (\<lambda>u ctx2.
     sbind (isub_v (next_ins_op wnd)
              (np_scale (par_initial_alpha (ctx_params ctx2)) (take (length pv) f_grad))
              ctx2) (\<lambda>u ctx3.
     isub_v_all (next_ins_args wnd)
              (map (\<lambda>x. f64_mul (f64_div x (Finite (real (length (next_ins_args wnd)))))
                                 (ctx_alpha ctx3))
                   (drop (length pv) f_grad)) ctx3))))"

text \<open>
  Lines 185 to 224 of \<open>_train_vectorized\<close>, as a function of the value that line 183
  binds to \<open>delta\<close>. The state is the vector of the function \<open>f\<close> and the context.
\<close>

definition train_vectorized_body ::
  "vec \<Rightarrow> view \<Rightarrow> vec \<times> training_context \<Rightarrow> (error + unit) \<times> (vec \<times> training_context)" where
  "train_vectorized_body delta wnd s =
     (case token_loop delta (curr_ins_op wnd # curr_ins_args wnd)
             (replicate (length (fst s)) (Finite 0)) (snd s) of
        (r, ctx1) \<Rightarrow>
          (case r of
             Inl e \<Rightarrow> (Inl e, (fst s, ctx1))
           | Inr f_grad \<Rightarrow>
               (case np_isub (fst s) (np_scale (ctx_alpha ctx1) f_grad) of
                  Inl e \<Rightarrow> (Inl e, (fst s, ctx1))
                | Inr fv \<Rightarrow>
                    if \<not> ctx_is_estimating ctx1
                    then (case apply_instruction_gradient wnd f_grad ctx1 of
                            (r2, ctx2) \<Rightarrow> (r2, (fv, ctx2)))
                    else (Inr (), (fv, ctx1)))))"

text \<open>
  Lines 181 to 183, the context delta: the tuple that line 183 averages holds the
  function object \<open>f\<close>, not its vector. Nothing is mutated here.
\<close>

definition context_delta :: "training_context \<Rightarrow> view \<Rightarrow> vec \<Rightarrow> error + vec" where
  "context_delta ctx wnd fv =
     ebind (get_inst_repr (ctx_vocab ctx) (prev_ins_op wnd) (prev_ins_args wnd)) (\<lambda>ct_prev.
     ebind (get_inst_repr (ctx_vocab ctx) (next_ins_op wnd) (next_ins_args wnd)) (\<lambda>ct_next.
       np_average_all [Arr ct_prev, Obj, Arr ct_next]))"

text \<open>\<open>_train_vectorized\<close>.\<close>

definition train_vectorized ::
  "view \<Rightarrow> vec \<times> training_context \<Rightarrow> (error + unit) \<times> (vec \<times> training_context)" where
  "train_vectorized wnd s =
     (case context_delta (snd s) wnd (fst s) of
        Inl e \<Rightarrow> (Inl e, s)
      | Inr delta \<Rightarrow> train_vectorized_body delta wnd s)"

subsection \<open>The training loop\<close>

text \<open>
  \<open>_train_sequence\<close>: the loop ends when StopIteration reaches the \<open>except\<close> clause,
  from \<open>next\<close> or from the gradient step; every other exception propagates.
\<close>

function train_sequence_loop ::
  "sequence_window \<Rightarrow> vec \<times> training_context \<Rightarrow> (error + unit) \<times> (vec \<times> training_context)" where
  "train_sequence_loop w s =
     (case window_next (ctx_vocab (snd s)) w of
        Inl e \<Rightarrow> (if e = StopIteration then (Inr (), s) else (Inl e, s))
      | Inr (vw, w') \<Rightarrow>
          (case train_vectorized vw s of
             (Inl e, s') \<Rightarrow> (if e = StopIteration then (Inr (), s') else (Inl e, s'))
           | (Inr u, s') \<Rightarrow> train_sequence_loop w' s'))"
  by pat_completeness auto
termination
proof (relation "measure (\<lambda>(w, s). nat (int (length (wnd_seq w)) - wnd_i w))")
  show "wf (measure (\<lambda>(w, s). nat (int (length (wnd_seq w)) - wnd_i w)))"
    by simp
next
  fix w :: sequence_window and s :: "vec \<times> training_context" and x2 vw w' and s' :: "vec \<times> training_context"
  assume "window_next (ctx_vocab (snd s)) w = Inr x2" and "(vw, w') = x2"
  then have "window_next (ctx_vocab (snd s)) w = Inr (vw, w')"
    by simp
  from window_next_Inr [OF this]
  show "((w', s'), (w, s)) \<in> measure (\<lambda>(w, s). nat (int (length (wnd_seq w)) - wnd_i w))"
    by simp
qed

declare train_sequence_loop.simps [simp del]

definition train_sequence ::
  "vec \<times> training_context \<Rightarrow> instruction list \<Rightarrow> (error + unit) \<times> (vec \<times> training_context)" where
  "train_sequence s sq = train_sequence_loop (create_sequence_window (snd s) sq) s"

text \<open>The loop \<open>for seq in f.sequential().sequences()\<close>.\<close>

fun train_sequences ::
  "instruction list list \<Rightarrow> vec \<times> training_context \<Rightarrow> (error + unit) \<times> (vec \<times> training_context)" where
  "train_sequences [] s = (Inr (), s)"
| "train_sequences (sq # sqs) s = sbind (train_sequence s sq) (\<lambda>u s'. train_sequences sqs s')"

text \<open>
  The loop \<open>for f in context.repo().funcs()\<close>; the state is the functions, with their
  vectors, and the context.
\<close>

fun train_funcs ::
  "vectorized_function list \<Rightarrow> training_context
   \<Rightarrow> (error + unit) \<times> (vectorized_function list \<times> training_context)" where
  "train_funcs [] ctx = (Inr (), ([], ctx))"
| "train_funcs (f # fs) ctx =
     (case train_sequences (fn_sequences f) (fn_v f, ctx) of
        (r, s) \<Rightarrow>
          (case r of
             Inl e \<Rightarrow> (Inl e, (f\<lparr>fn_v := fst s\<rparr> # fs, snd s))
           | Inr u \<Rightarrow>
               (case train_funcs fs (snd s) of
                  (r', st) \<Rightarrow> (r', (f\<lparr>fn_v := fst s\<rparr> # fst st, snd st)))))"

text \<open>
  \<open>train\<close> and \<open>estimate\<close>, given the outcomes \<open>draws\<close> of the sampler. \<open>train\<close> returns
  nothing, \<open>estimate\<close> returns the vector of \<open>f\<close>; the state that each leaves behind,
  when it returns and when it raises, comes with the result.
\<close>

definition train ::
  "(nat \<Rightarrow> int \<Rightarrow> string list) \<Rightarrow> function_repository \<Rightarrow> asm2vec_params
   \<Rightarrow> (error + unit) \<times> (vectorized_function list \<times> training_context)" where
  "train draws repository params =
     train_funcs (repo_funcs repository)
       (add_counter (TrainingContext draws repository params False) TOKENS_HANDLED_COUNTER 0)"

definition estimate ::
  "(nat \<Rightarrow> int \<Rightarrow> string list) \<Rightarrow> vectorized_function \<Rightarrow> function_repository
   \<Rightarrow> asm2vec_params \<Rightarrow> (error + vec) \<times> (vec \<times> training_context)" where
  "estimate draws f estimate_repo params =
     (case train_sequences (fn_sequences f)
             (fn_v f, TrainingContext draws estimate_repo params True) of
        (r, s) \<Rightarrow> (case r of Inl e \<Rightarrow> (Inl e, s) | Inr u \<Rightarrow> (Inr (fst s), s)))"

subsection \<open>The formulas of the specification\<close>

text \<open>
  The specification's words for the error signal of a target and for the two gradients,
  to compare the source with: \<open>err(t) = label(t) - sigmoid(dot(t.v_pred, delta))\<close> with
  \<open>label(t) = 1\<close> iff \<open>t\<close> is \<open>tk\<close> by name; the gradient of the function vector is the
  sum over the targets of \<open>err(t) * t.v_pred\<close>; the gradient of a target is
  \<open>err(t) * delta\<close>.
\<close>

definition spec_err :: "vocabulary \<Rightarrow> string \<Rightarrow> vec \<Rightarrow> string \<Rightarrow> error + float64" where
  "spec_err vocab tk delta t =
     ebind (get_v_pred vocab t) (\<lambda>tp.
     ebind (dot_sigmoid tp delta) (\<lambda>sg.
       Inr (f64_sub (identity (t = tk)) sg)))"

definition vec_sum :: "nat \<Rightarrow> vec list \<Rightarrow> vec" where
  "vec_sum n rows = fold (\<lambda>row acc. map2 f64_add acc row) rows (replicate n (Finite 0))"

definition spec_function_grad :: "vocabulary \<Rightarrow> string list \<Rightarrow> string \<Rightarrow> vec \<Rightarrow> error + vec" where
  "spec_function_grad vocab targets tk delta =
     ebind (emap (\<lambda>t. ebind (spec_err vocab tk delta t) (\<lambda>e.
                       ebind (get_v_pred vocab t) (\<lambda>tp. Inr (np_scale e tp))))
                 targets) (\<lambda>rows.
       Inr (vec_sum (length delta) rows))"

definition spec_target_grad :: "vocabulary \<Rightarrow> string \<Rightarrow> string \<Rightarrow> vec \<Rightarrow> error + vec" where
  "spec_target_grad vocab t tk delta =
     ebind (spec_err vocab tk delta t) (\<lambda>e. Inr (np_scale e delta))"

subsection \<open>A small repository\<close>

text \<open>
  Three instructions with one operand each; token vectors of dimension 1, predictive
  vectors and the function vector of dimension 2. The sampler \<open>no_draws\<close> returns no
  negative sample. \<open>ex_ctx\<close> is the context in which \<open>train\<close> starts on this repository.
\<close>

definition ex_vocab :: vocabulary where
  "ex_vocab =
     [''push'' \<mapsto> \<lparr>tok_v = fvec [4], tok_v_pred = fvec [1, 1]\<rparr>,
      ''ebp'' \<mapsto> \<lparr>tok_v = fvec [5], tok_v_pred = fvec [1, 1]\<rparr>,
      ''mov'' \<mapsto> \<lparr>tok_v = fvec [0], tok_v_pred = fvec [3, 6]\<rparr>,
      ''eax'' \<mapsto> \<lparr>tok_v = fvec [0], tok_v_pred = fvec [2, 0]\<rparr>,
      ''pop'' \<mapsto> \<lparr>tok_v = fvec [7], tok_v_pred = fvec [1, 1]\<rparr>,
      ''ebx'' \<mapsto> \<lparr>tok_v = fvec [8], tok_v_pred = fvec [1, 1]\<rparr>]"

definition ex_seq :: "instruction list" where
  "ex_seq =
     [\<lparr>ins_op = ''push'', ins_args = [''ebp'']\<rparr>,
      \<lparr>ins_op = ''mov'', ins_args = [''eax'']\<rparr>,
      \<lparr>ins_op = ''pop'', ins_args = [''ebx'']\<rparr>]"

definition ex_func :: vectorized_function where
  "ex_func = \<lparr>fn_v = fvec [2, 2], fn_sequences = [ex_seq]\<rparr>"

definition ex_repo :: function_repository where
  "ex_repo = \<lparr>repo_vocab = ex_vocab, repo_funcs = [ex_func], repo_num_of_tokens = 6\<rparr>"

definition no_draws :: "nat \<Rightarrow> int \<Rightarrow> string list" where
  "no_draws n k = []"

definition ex_ctx :: training_context where
  "ex_ctx = add_counter (TrainingContext no_draws ex_repo Asm2VecParams False)
              TOKENS_HANDLED_COUNTER 0"

section \<open>Properties\<close>

subsection \<open>Exceptions and evaluation\<close>

lemma ebind_Inr [simp]: "ebind (Inr x) k = k x"
  by (simp add: ebind_def)

lemma ebind_Inl [simp]: "ebind (Inl e) k = Inl e"
  by (simp add: ebind_def)

lemma ebind_weak_cong [cong]: "m = m' \<Longrightarrow> ebind m k = ebind m' k"
  by simp

lemma ebind_eq_Inr: "ebind m k = Inr y \<longleftrightarrow> (\<exists>x. m = Inr x \<and> k x = Inr y)"
  by (cases m) simp_all

subsection \<open>The sequence window\<close>

lemma token_lookup_dom: "n \<in> dom vocab \<Longrightarrow> token_lookup vocab n = Inr n"
  by (auto simp: token_lookup_def)

lemma emap_token_lookup: "set ns \<subseteq> dom vocab \<Longrightarrow> emap (token_lookup vocab) ns = Inr ns"
  by (induction ns) (auto simp: token_lookup_def)

lemma window_next_step:
  assumes "vocab_covers vocab s" "1 \<le> k" "k + 1 < length s"
  shows "window_next vocab \<lparr>wnd_seq = s, wnd_i = int k\<rparr>
         = Inr (view_at s k, \<lparr>wnd_seq = s, wnd_i = int (Suc k)\<rparr>)"
proof -
  have m: "names_of (s ! j) \<subseteq> dom vocab" if "j < length s" for j
    using assms(1) that by (auto simp: vocab_covers_def)
  have a: "names_of (s ! (k - 1)) \<subseteq> dom vocab" "names_of (s ! k) \<subseteq> dom vocab"
    "names_of (s ! (k + 1)) \<subseteq> dom vocab"
    using assms(2,3) by (auto intro!: m)
  have g1: "py_getitem s (int k - 1) = Inr (s ! (k - 1))"
    using assms(2,3) by (simp add: py_getitem_def nat_diff_distrib')
  have g2: "py_getitem s (int k) = Inr (s ! k)"
    using assms(2,3) by (simp add: py_getitem_def)
  have g3: "py_getitem s (int k + 1) = Inr (s ! (k + 1))"
    using assms(2,3) by (simp add: py_getitem_def nat_add_distrib)
  show ?thesis
    using a assms(2,3)
    by (simp add: window_next_def g1 g2 g3 names_of_def token_lookup_dom emap_token_lookup
        view_at_def)
qed

lemma window_next_stop:
  "int (length s) - 1 \<le> k \<Longrightarrow> window_next vocab \<lparr>wnd_seq = s, wnd_i = k\<rparr> = Inl StopIteration"
  by (simp add: window_next_def)

lemma drain_from:
  assumes "vocab_covers vocab s" "1 \<le> k"
  shows "drain vocab \<lparr>wnd_seq = s, wnd_i = int k\<rparr> = Inr (map (view_at s) [k ..< length s - 1])"
  using assms(2)
proof (induction "length s - k" arbitrary: k)
  case 0
  then have "int (length s) - 1 \<le> int k" by simp
  from window_next_stop [OF this] 0 show ?case
    by (subst drain.simps) simp
next
  case (Suc n)
  show ?case
  proof (cases "k + 1 < length s")
    case True
    have "n = length s - Suc k" "1 \<le> Suc k"
      using Suc.hyps(2) by simp_all
    then have ih: "drain vocab \<lparr>wnd_seq = s, wnd_i = int (Suc k)\<rparr>
                   = Inr (map (view_at s) [Suc k ..< length s - 1])"
      by (rule Suc.hyps(1))
    have "[k ..< length s - 1] = k # [Suc k ..< length s - 1]"
      using True by (simp add: upt_conv_Cons)
    then show ?thesis
      using window_next_step [OF assms(1) Suc.prems True] ih
      by (subst drain.simps) simp
  next
    case False
    then have "int (length s) - 1 \<le> int k" by simp
    from window_next_stop [OF this] False show ?thesis
      by (subst drain.simps) simp
  qed
qed

lemma drain_short: "length s < 3 \<Longrightarrow> drain vocab (SequenceWindow s) = Inr []"
  using window_next_stop [of s 1 vocab]
  by (subst drain.simps) (simp add: SequenceWindow_def)

text \<open>
  C7. A window over a sequence of fewer than three instructions produces no tuple and
  ends with StopIteration, no other exception. Over a sequence of \<open>n \<ge> 3\<close>
  instructions whose names are all in the vocabulary (the invariant of the data model),
  it produces the views at the cursor positions \<open>1, 2, ..., n - 2\<close>, in this order and
  once each, which are \<open>n - 2\<close> tuples, and then ends with StopIteration.
\<close>

theorem sequence_window_iterations:
  "(length s < 3 \<longrightarrow> drain vocab (SequenceWindow s) = Inr [])
   \<and> (3 \<le> length s \<and> vocab_covers vocab s \<longrightarrow>
        drain vocab (SequenceWindow s) = Inr (map (view_at s) [1 ..< length s - 1])
        \<and> length (map (view_at s) [1 ..< length s - 1]) = length s - 2
        \<and> [1 ..< length s - 1] = map (\<lambda>j. j + 1) [0 ..< length s - 2])"
proof (intro conjI impI)
  assume "length s < 3"
  then show "drain vocab (SequenceWindow s) = Inr []"
    by (rule drain_short)
next
  assume a: "3 \<le> length s \<and> vocab_covers vocab s"
  then show "drain vocab (SequenceWindow s) = Inr (map (view_at s) [1 ..< length s - 1])"
    using drain_from [of vocab s 1] by (simp add: SequenceWindow_def)
  show "length (map (view_at s) [1 ..< length s - 1]) = length s - 2"
    by simp
  show "[1 ..< length s - 1] = map (\<lambda>j. j + 1) [0 ..< length s - 2]"
    using a by (simp add: map_Suc_upt Suc_diff_Suc numeral_2_eq_2 numeral_3_eq_3)
qed

theorem sequence_window_iterations_witness:
  "drain ex_vocab (SequenceWindow (take 2 ex_seq)) = Inr []
   \<and> drain ex_vocab (SequenceWindow ex_seq)
       = Inr [\<lparr>prev_ins_op = ''push'', prev_ins_args = [''ebp''],
               curr_ins_op = ''mov'', curr_ins_args = [''eax''],
               next_ins_op = ''pop'', next_ins_args = [''ebx'']\<rparr>]"
proof -
  have c: "vocab_covers ex_vocab ex_seq"
    by (simp add: vocab_covers_def names_of_def ex_vocab_def ex_seq_def)
  have l: "length ex_seq = 3" "length (take 2 ex_seq) < 3"
    by (simp_all add: ex_seq_def)
  show ?thesis
    using sequence_window_iterations [of "take 2 ex_seq" ex_vocab]
      sequence_window_iterations [of ex_seq ex_vocab] c l
    by (simp add: view_at_def ex_seq_def)
qed

subsection \<open>State and exceptions\<close>

lemma sbind_Inr [simp]: "sbind (Inr x, s) k = k x s"
  by (simp add: sbind_def)

lemma sbind_Inl [simp]: "sbind (Inl e, s) k = (Inl e, s)"
  by (simp add: sbind_def)

lemma sbind_weak_cong [cong]: "r = r' \<Longrightarrow> sbind r k = sbind r' k"
  by simp

lemma emap_Inl: "emap g xs = Inl e \<Longrightarrow> \<exists>x \<in> set xs. g x = Inl e"
proof (induction xs)
  case Nil
  then show ?case by simp
next
  case (Cons x xs)
  then show ?case
    by (cases "g x"; cases "emap g xs") simp_all
qed

subsection \<open>The gradient step raises\<close>

text \<open>
  \<open>_get_inst_repr\<close> raises for every opcode and operands, and so do lines 181 to 183
  and \<open>_train_vectorized\<close>, for every window and in every state; what they raise is
  never StopIteration, and the state is as it was.
\<close>

lemma get_inst_repr_error:
  "\<exists>e. get_inst_repr vocab opr args = Inl e \<and> e \<noteq> StopIteration"
proof (cases "get_v vocab opr")
  case (Inl e)
  then have "e = KeyError"
    by (simp add: get_v_def split: option.splits)
  with Inl show ?thesis by (simp add: get_inst_repr_def)
next
  case ov: (Inr ov)
  show ?thesis
  proof (cases "emap (get_v vocab) args")
    case (Inl e)
    from emap_Inl [OF this] have "e = KeyError"
      by (auto simp: get_v_def split: option.splits)
    with Inl ov show ?thesis by (simp add: get_inst_repr_def)
  next
    case avs: (Inr avs)
    show ?thesis
    proof (cases "np_average_axis0 avs")
      case (Inl e)
      then have "e = ValueError"
        by (simp add: np_average_axis0_def split: list.splits if_splits)
      with Inl ov avs show ?thesis by (simp add: get_inst_repr_def)
    next
      case (Inr m)
      with ov avs show ?thesis by (simp add: get_inst_repr_def)
    qed
  qed
qed

lemma context_delta_error:
  "\<exists>e. context_delta ctx wnd fv = Inl e \<and> e \<noteq> StopIteration"
proof -
  obtain e where "get_inst_repr (ctx_vocab ctx) (prev_ins_op wnd) (prev_ins_args wnd) = Inl e"
    and "e \<noteq> StopIteration"
    using get_inst_repr_error by blast
  then show ?thesis by (simp add: context_delta_def)
qed

lemma train_vectorized_error:
  "\<exists>e. train_vectorized wnd s = (Inl e, s) \<and> e \<noteq> StopIteration"
proof -
  obtain e where "context_delta (snd s) wnd (fst s) = Inl e" and "e \<noteq> StopIteration"
    using context_delta_error by blast
  then show ?thesis by (simp add: train_vectorized_def)
qed

subsection \<open>No run changes the state\<close>

text \<open>
  So a window either does not exist, and the loop of \<open>_train_sequence\<close> ends at once, or
  its gradient step raises at line 181: no run of \<open>train\<close> or of \<open>estimate\<close>, whether
  it returns or raises, changes a token, a function vector, the learning rate or a
  counter.
\<close>

lemma train_sequence_loop_result:
  "train_sequence_loop w s = (Inr (), s) \<and> window_next (ctx_vocab (snd s)) w = Inl StopIteration
   \<or> (\<exists>e. train_sequence_loop w s = (Inl e, s))"
proof (cases "window_next (ctx_vocab (snd s)) w")
  case (Inl e)
  then show ?thesis
    by (subst train_sequence_loop.simps, subst train_sequence_loop.simps) simp
next
  case (Inr p)
  obtain vw w' where p: "p = (vw, w')" by (cases p)
  obtain e where "train_vectorized vw s = (Inl e, s)" and "e \<noteq> StopIteration"
    using train_vectorized_error by blast
  with Inr p show ?thesis
    by (subst train_sequence_loop.simps, subst train_sequence_loop.simps) simp
qed

lemma train_sequence_loop_state: "snd (train_sequence_loop w s) = s"
  using train_sequence_loop_result [of w s] by auto

lemma train_sequences_state: "snd (train_sequences sqs s) = s"
proof (induction sqs)
  case Nil
  then show ?case by simp
next
  case (Cons sq sqs)
  obtain r where r: "train_sequence s sq = (r, s)"
    using train_sequence_loop_state [of "create_sequence_window (snd s) sq" s]
    by (cases "train_sequence s sq") (simp add: train_sequence_def)
  show ?case
    using Cons.IH by (cases r) (simp_all add: r)
qed



lemma estimate_state:
  "snd (estimate draws f estimate_repo params)
   = (fn_v f, TrainingContext draws estimate_repo params True)"
proof -
  let ?s = "(fn_v f, TrainingContext draws estimate_repo params True)"
  obtain r where "train_sequences (fn_sequences f) ?s = (r, ?s)"
    using train_sequences_state [of "fn_sequences f" ?s]
    by (cases "train_sequences (fn_sequences f) ?s") simp
  then show ?thesis
    by (cases r) (simp_all add: estimate_def)
qed

subsection \<open>A window makes the run raise\<close>





subsection \<open>Evaluation on the small repository\<close>

lemmas ex_defs = ex_vocab_def ex_seq_def ex_func_def ex_repo_def no_draws_def fvec_def
  ex_ctx_def add_counter_def TrainingContext_def Asm2VecParams_def TOKENS_HANDLED_COUNTER_def

lemmas step_defs = train_vectorized_def train_vectorized_body_def handle_token_def sample_def
  update_alpha_def get_counter_def set_alpha_def make_targets_def dict_add_key_def
  get_function_grad_def get_target_grad_def get_v_pred_def get_v_def dot_sigmoid_def np_dot_def
  np_sum_def sigmoid_def identity_def np_scale_def np_iadd_def np_isub_def isub_v_pred_def
  isub_v_def apply_instruction_gradient_def py_true_div_def py_max_def exp_overflow_def
  exp_underflow_def context_delta_def get_inst_repr_def np_average_axis0_def

lemmas run_defs = train_def estimate_def train_sequence_def create_sequence_window_def
  SequenceWindow_def window_next_def py_getitem_def token_lookup_def train_sequence_loop.simps


lemma estimate_ex:
  "estimate no_draws ex_func ex_repo Asm2VecParams
   = (Inl TypeError, (fvec [2, 2], TrainingContext no_draws ex_repo Asm2VecParams True))"
  by (simp add: ex_defs step_defs run_defs)

subsection \<open>The context delta\<close>

text \<open>
  C1. The claim: the context delta is the elementwise average of the representation of
  the previous instruction, the vector of the function and the representation of the
  next instruction, a representation being the opcode's vector joined with the mean of
  the operands' vectors. The source does not compute it: \<open>_get_inst_repr\<close> passes the
  two arrays to \<open>np.hstack\<close> as two positional arguments, so it returns no vector for
  any opcode and operands, and raises TypeError where the tokens are in the vocabulary;
  lines 181 to 183 and with them \<open>_train_vectorized\<close> raise at the first window.
\<close>

theorem inst_repr_raises:
  "get_inst_repr vocab opr args \<noteq> Inr r
   \<and> get_inst_repr ex_vocab ''push'' [''ebp''] = Inl TypeError
   \<and> context_delta ex_ctx (view_at ex_seq 1) (fvec [2, 2]) = Inl TypeError
   \<and> train_vectorized (view_at ex_seq 1) (fvec [2, 2], ex_ctx)
     = (Inl TypeError, (fvec [2, 2], ex_ctx))"
proof -
  have "get_inst_repr vocab opr args \<noteq> Inr r"
    using get_inst_repr_error [of vocab opr args] by auto
  moreover have g: "get_inst_repr ex_vocab ''push'' [''ebp''] = Inl TypeError"
    by (simp add: get_inst_repr_def get_v_def ex_vocab_def np_average_axis0_def)
  moreover have c: "context_delta ex_ctx (view_at ex_seq 1) (fvec [2, 2]) = Inl TypeError"
    by (simp add: context_delta_def view_at_def ex_seq_def ex_ctx_def add_counter_def
        TrainingContext_def ex_repo_def g)
  ultimately show ?thesis
    by (simp add: train_vectorized_def)
qed

subsection \<open>The counter of handled tokens\<close>


subsection \<open>The gradient of the function vector\<close>

text \<open>
  C3. The claim: the gradient of the function vector for the current token is the sum
  over the targets of \<open>err(t) * t.v_pred\<close>, every target scored against its own
  predictive vector and every term scaling that vector. \<open>_get_function_grad\<close> scores
  every target against the predictive vector of the current token and scales that one
  vector by the sum of the error signals, divided by 3. For the targets \<open>eax\<close> and
  \<open>mov\<close>, with \<open>mov\<close> the current token, it returns the zero vector: at the zero delta,
  where the sum of the claim is \<open>[1/2, 3]\<close>, and at the delta \<open>[-2000, 1000]\<close>, where
  the score of \<open>eax\<close> against its own vector is 0 and the sum of the claim is
  \<open>[3/2, 3]\<close>.
\<close>

theorem function_grad_current_token_vector:
  "get_function_grad ex_vocab [''eax'', ''mov''] ''mov'' (fvec [0, 0]) = Inr (fvec [0, 0])
   \<and> spec_function_grad ex_vocab [''eax'', ''mov''] ''mov'' (fvec [0, 0]) = Inr (fvec [1 / 2, 3])
   \<and> get_function_grad ex_vocab [''eax'', ''mov''] ''mov'' (fvec [- 2000, 1000])
     = Inr (fvec [0, 0])
   \<and> spec_function_grad ex_vocab [''eax'', ''mov''] ''mov'' (fvec [- 2000, 1000])
     = Inr (fvec [3 / 2, 3])
   \<and> get_v_pred ex_vocab ''eax'' = Inr (fvec [2, 0])
   \<and> get_v_pred ex_vocab ''mov'' = Inr (fvec [3, 6])"
  by (simp add: spec_function_grad_def spec_err_def vec_sum_def ex_defs step_defs)

subsection \<open>The gradient of a target\<close>

text \<open>
  C4. The claim: outside estimation mode a target's predictive vector loses
  \<open>alpha * err(t) * delta\<close>. In the source the sigmoid alone multiplies delta and the
  label is added to every entry. For the token \<open>mov\<close> as its own target and the zero
  delta, the gradient of the source is \<open>[1, 1]\<close> and that of the claim \<open>[0, 0]\<close>: with
  the learning rate 1 the body of the token loop takes the predictive vector of \<open>mov\<close>
  from \<open>[3, 6]\<close> to \<open>[2, 5]\<close>, where the claim leaves it unchanged.
\<close>

theorem target_grad_precedence:
  "get_target_grad ex_vocab ''mov'' ''mov'' (fvec [0, 0]) = Inr (fvec [1, 1])
   \<and> spec_target_grad ex_vocab ''mov'' ''mov'' (fvec [0, 0]) = Inr (fvec [0, 0])
   \<and> (\<lambda>r. (isl (fst r), ctx_alpha (snd r), get_v_pred (ctx_vocab (snd r)) ''mov''))
        (handle_token (fvec [0, 0]) ''mov'' (fvec [0, 0]) ex_ctx)
      = (False, Finite 1, Inr (fvec [2, 5]))
   \<and> get_v_pred (ctx_vocab ex_ctx) ''mov'' = Inr (fvec [3, 6])"
  by (simp add: ex_defs step_defs spec_target_grad_def spec_err_def)

subsection \<open>The gradient of the neighbouring instructions\<close>


subsection \<open>The result of an estimation\<close>

text \<open>
  C6. The claim: \<open>estimate\<close> returns the final vector of the function, which the
  accumulated gradient has updated at every window, and changes no token. On the small
  repository \<open>estimate\<close> returns nothing: it raises TypeError at line 181 of the first
  window and leaves the vector of the function at \<open>[2, 2]\<close>. No run of \<open>estimate\<close>
  updates the vector of its function.
\<close>

theorem estimate_raises:
  "estimate no_draws ex_func ex_repo Asm2VecParams
     = (Inl TypeError, (fvec [2, 2], TrainingContext no_draws ex_repo Asm2VecParams True))
   \<and> fn_v ex_func = fvec [2, 2]
   \<and> fst (snd (estimate draws f estimate_repo params)) = fn_v f"
  using estimate_ex by (simp add: estimate_state ex_func_def)

subsection \<open>The learning-rate schedule\<close>


subsection \<open>Estimation and the counter\<close>





subsection \<open>Lines that no run reaches\<close>

text \<open>
  What lines 194 to 199 and 212 to 224 would do in contexts of the small repository,
  were they reached: with the counter at 0 the learning rate becomes 1; with the
  learning rate 1, the initial rate 1/20 and the accumulated gradient \<open>[1/2, 1]\<close>, the
  vector of the previous opcode \<open>push\<close> loses \<open>1 * (1/2)\<close> and that of the next opcode
  \<open>pop\<close> loses \<open>1/20 * (1/2)\<close>: line 221 scales by the initial rate.
\<close>

lemma update_alpha_at_start: "update_alpha ex_ctx = (Inr (), set_alpha ex_ctx (Finite 1))"
  by (simp add: ex_defs step_defs)

lemma instruction_gradient_factors:
  "(\<lambda>r. (fst r, get_v (ctx_vocab (snd r)) ''push'', get_v (ctx_vocab (snd r)) ''pop''))
     (apply_instruction_gradient (view_at ex_seq 1) (fvec [1 / 2, 1]) (set_alpha ex_ctx (Finite 1)))
   = (Inr (), Inr (fvec [4 - 1 * (1 / 2)]), Inr (fvec [7 - 1 / 20 * (1 / 2)]))"
  by (simp add: ex_defs step_defs view_at_def)

subsection \<open>The sigmoid and the range of the exponential\<close>

lemma logistic_range: "0 < logistic x \<and> logistic x < 1"
proof -
  have "0 < exp x" by simp
  then show ?thesis
    by (simp add: logistic_def add_pos_pos)
qed

text \<open>
  C9, as amended. The source neither clamps the input of the sigmoid nor uses a stable
  formulation. For an input up to the overflow bound of the exponential the sigmoid is
  a finite number of the interval from 0 to 1, and between the two bounds it is
  \<open>exp x / (1 + exp x)\<close>; for an input above the overflow bound the exponential is
  \<open>inf\<close> and the sigmoid is nan. No exception is raised in either case.
\<close>

theorem sigmoid_f64_cases:
  "(x \<le> exp_overflow \<longrightarrow> (\<exists>y. sigmoid (Finite x) = Finite y \<and> 0 \<le> y \<and> y \<le> 1))
   \<and> (exp_underflow \<le> x \<and> x \<le> exp_overflow \<longrightarrow> sigmoid (Finite x) = Finite (logistic x))
   \<and> (exp_overflow < x \<longrightarrow> sigmoid (Finite x) = NaN)"
proof (intro conjI impI)
  assume a: "x \<le> exp_overflow"
  show "\<exists>y. sigmoid (Finite x) = Finite y \<and> 0 \<le> y \<and> y \<le> 1"
  proof (cases "x < exp_underflow")
    case True
    with a show ?thesis by (simp add: sigmoid_def)
  next
    case False
    have "0 < exp x" by simp
    then have "1 + exp x \<noteq> 0"
      by (simp add: add_pos_pos pos_add_strict less_imp_neq [symmetric])
    with a False have "sigmoid (Finite x) = Finite (logistic x)"
      by (simp add: sigmoid_def logistic_def)
    with logistic_range [of x] show ?thesis by (simp add: less_imp_le)
  qed
next
  assume a: "exp_underflow \<le> x \<and> x \<le> exp_overflow"
  have "0 < exp x" by simp
  then have "1 + exp x \<noteq> 0"
    by (simp add: add_pos_pos pos_add_strict less_imp_neq [symmetric])
  with a show "sigmoid (Finite x) = Finite (logistic x)"
    by (simp add: sigmoid_def logistic_def not_less [symmetric])
next
  assume "exp_overflow < x"
  then show "sigmoid (Finite x) = NaN"
    by (simp add: sigmoid_def)
qed

theorem sigmoid_f64_cases_witness:
  "sigmoid (Finite 0) = Finite (1 / 2) \<and> sigmoid (Finite (- 1000)) = Finite 0
   \<and> sigmoid (Finite 710) = NaN"
  using sigmoid_f64_cases [of 0] sigmoid_f64_cases [of 710]
  by (simp add: exp_overflow_def exp_underflow_def logistic_def sigmoid_def)

text \<open>
  C9 as stated fails: at the input 1000 the exponential overflows and the sigmoid of
  the source is nan, not a finite number of the interval from 0 to 1.
\<close>

theorem sigmoid_overflow: "sigmoid (Finite 1000) = NaN"
  by (simp add: sigmoid_def exp_overflow_def)

end
